theory Spec2Isabelle
  imports Main "HOL-Library.Multiset"
begin

section \<open>The feed reader's models (feeds/models.py)\<close>

subsection \<open>Python values used by the models\<close>

text \<open>
  An aware UTC \<^verbatim>\<open>datetime\<close> is the number of microseconds since 0001-01-01 00:00 UTC
  on the proleptic Gregorian calendar, the scale Python's own date arithmetic uses
  (\<^verbatim>\<open>toordinal\<close> counts 0001-01-01 as day 1).
\<close>

type_synonym datetime = int

definition us_per_day :: int where
  "us_per_day = 86400 * 1000000"

definition is_leap :: "int \<Rightarrow> bool" where
  "is_leap y = (if y mod 4 = 0 then (if y mod 100 = 0 then y mod 400 = 0 else True) else False)"

definition days_before_year :: "int \<Rightarrow> int" where
  "days_before_year y = (let y1 = y - 1 in y1 * 365 + y1 div 4 - y1 div 100 + y1 div 400)"

definition days_before_month :: "int \<Rightarrow> int \<Rightarrow> int" where
  "days_before_month y m =
     [0, 0, 31, 59, 90, 120, 151, 181, 212, 243, 273, 304, 334] ! nat m
       + (if m > 2 \<and> is_leap y then 1 else 0)"

definition ymd2ord :: "int \<Rightarrow> int \<Rightarrow> int \<Rightarrow> int" where
  "ymd2ord y m d = days_before_year y + days_before_month y m + d"

text \<open>
  \<^verbatim>\<open>datetime(y, m, d, tzinfo=utc)\<close>: midnight UTC of a calendar day. The month is taken
  in 1..12, as at the one call site.
\<close>

definition datetime_utc :: "int \<Rightarrow> int \<Rightarrow> int \<Rightarrow> datetime" where
  "datetime_utc y m d = ymd2ord y m d * us_per_day"

text \<open>
  \<^verbatim>\<open>(a - b).days\<close>: a timedelta is normalised with \<^verbatim>\<open>0 <= seconds < 86400\<close>, so its
  \<^verbatim>\<open>days\<close> is the floor of the difference in days (negative when \<open>a\<close> is before \<open>b\<close>).
\<close>

definition timedelta_days :: "datetime \<Rightarrow> datetime \<Rightarrow> int" where
  "timedelta_days a b = (a - b) div us_per_day"

text \<open>
  \<^verbatim>\<open>int(n / 2)\<close>: true division, then truncation toward zero. A count of days is far
  below \<open>2 ^ 53\<close>, so the float quotient is exact.
\<close>

definition int_half :: "int \<Rightarrow> int" where
  "int_half n = (if 0 \<le> n then n div 2 else - ((- n) div 2))"

fun hex_digits :: "nat \<Rightarrow> string" where
  "hex_digits n =
     (if n < 16 then [''0123456789abcdef'' ! n]
      else hex_digits (n div 16) @ [''0123456789abcdef'' ! (n mod 16)])"

fun dec_digits :: "nat \<Rightarrow> string" where
  "dec_digits n =
     (if n < 10 then [''0123456789'' ! n]
      else dec_digits (n div 10) @ [''0123456789'' ! (n mod 10)])"

text \<open>
  \<^verbatim>\<open>"%02x" % n\<close>: lowercase hexadecimal, a minus sign for a negative number, zeros
  between the sign and the digits up to a total width of two.
\<close>

definition fmt_02x :: "int \<Rightarrow> string" where
  "fmt_02x n =
     (let sign = (if n < 0 then ''-'' else '''');
          digits = hex_digits (nat \<bar>n\<bar>)
      in sign @ replicate (2 - length sign - length digits) CHR ''0'' @ digits)"

text \<open>\<^verbatim>\<open>"%d" % n\<close>.\<close>

definition fmt_d :: "int \<Rightarrow> string" where
  "fmt_d n = (if n < 0 then ''-'' else '''') @ dec_digits (nat \<bar>n\<bar>)"

datatype error = ValueError | DatabaseError | TypeError | UnicodeEncodeError

text \<open>
  \<^verbatim>\<open>str.encode("utf-8")\<close> on a text given as Unicode code points. A surrogate
  (U+D800..U+DFFF) has no UTF-8 form and raises.
\<close>

definition utf8_char :: "nat \<Rightarrow> error + string" where
  "utf8_char c =
     (if c < 0x80 then Inr [char_of c]
      else if c < 0x800 then Inr [char_of (0xC0 + c div 64), char_of (0x80 + c mod 64)]
      else if 0xD800 \<le> c \<and> c \<le> 0xDFFF then Inl UnicodeEncodeError
      else if c < 0x10000 then
        Inr [char_of (0xE0 + c div 4096), char_of (0x80 + c div 64 mod 64),
             char_of (0x80 + c mod 64)]
      else if c < 0x110000 then
        Inr [char_of (0xF0 + c div 262144), char_of (0x80 + c div 4096 mod 64),
             char_of (0x80 + c div 64 mod 64), char_of (0x80 + c mod 64)]
      else Inl UnicodeEncodeError)"

fun utf8_encode :: "nat list \<Rightarrow> error + string" where
  "utf8_encode [] = Inr []"
| "utf8_encode (c # cs) =
     (case utf8_char c of
        Inl e \<Rightarrow> Inl e
      | Inr bs \<Rightarrow> (case utf8_encode cs of Inl e \<Rightarrow> Inl e | Inr rest \<Rightarrow> Inr (bs @ rest)))"

definition always_safe :: "string" where
  "always_safe =
     ''ABCDEFGHIJKLMNOPQRSTUVWXYZabcdefghijklmnopqrstuvwxyz0123456789_.-~''"

text \<open>
  \<^verbatim>\<open>urllib.parse.quote_plus\<close> on the encoded bytes: unreserved characters stay, a space
  becomes \<open>+\<close>, every other byte becomes \<open>%XX\<close> in uppercase hexadecimal.
\<close>

definition quote_byte :: "char \<Rightarrow> string" where
  "quote_byte b =
     (if b \<in> set always_safe then [b]
      else if b = CHR '' '' then ''+''
      else [CHR ''%'', ''0123456789ABCDEF'' ! (of_char b div 16),
            ''0123456789ABCDEF'' ! (of_char b mod 16)])"

definition quote_plus :: "nat list \<Rightarrow> error + string" where
  "quote_plus s =
     (case utf8_encode s of Inl e \<Rightarrow> Inl e | Inr bs \<Rightarrow> Inr (concat (map quote_byte bs)))"

text \<open>\<^verbatim>\<open>urlencode({"X": v})\<close>: the one-pair query string \<open>X=<quoted v>\<close>.\<close>

definition urlencode_X :: "nat list \<Rightarrow> error + string" where
  "urlencode_X v = (case quote_plus v of Inl e \<Rightarrow> Inl e | Inr q \<Rightarrow> Inr (''X='' @ q))"

subsection \<open>The models\<close>

text \<open>
  One record per model class, one field per column, in the order of the class body.
  \<open>pk\<close> is the automatic primary key \<^verbatim>\<open>id\<close>: \<open>None\<close> on an instance that was never
  saved. A nullable column is an \<open>option\<close>; a foreign key holds the key of the row it
  points to. The many-to-many \<^verbatim>\<open>tags\<close> relations are join tables of the database.
\<close>

record Tag =
  pk :: "nat option"
  name :: string

record Category =
  pk :: "nat option"
  name :: string

record Source =
  pk :: "nat option"
  name :: "string option"
  site_url :: "string option"
  feed_url :: string
  image_url :: "string option"
  description :: "string option"
  last_polled :: "datetime option"
  due_poll :: datetime
  etag :: "string option"
  last_modified :: "string option"
  last_result :: "string option"
  interval :: int
  last_success :: "datetime option"
  last_change :: "datetime option"
  live :: bool
  status_code :: int
  last_302_url :: "string option"
  last_302_start :: "datetime option"
  max_index :: int
  num_subs :: int
  is_cloudflare :: bool
  category :: "nat option"

text \<open>
  \<open>title\<close> is kept as Unicode code points, because \<^verbatim>\<open>title_url_encoded\<close> encodes it
  and the encoding can fail. \<open>found\<close> (\<^verbatim>\<open>auto_now_add\<close>) is \<open>None\<close> until the first
  save stamps it.
\<close>

record Post =
  pk :: "nat option"
  source :: nat
  title :: "nat list"
  body :: string
  link :: "string option"
  found :: "datetime option"
  created :: datetime
  guid :: "string option"
  author :: "string option"
  index :: int
  image_url :: "string option"
  read :: bool
  starred :: bool

record Enclosure =
  pk :: "nat option"
  post :: nat
  length_field :: int
  href :: string
  type_field :: string
  medium :: "string option"
  description :: "string option"

text \<open>The database: one list of rows per table, in storage order.\<close>

record db =
  tags :: "Tag list"
  categories :: "Category list"
  sources :: "Source list"
  posts :: "Post list"
  enclosures :: "Enclosure list"
  source_tags :: "(nat \<times> nat) list"
  post_tags :: "(nat \<times> nat) list"

subsection \<open>Construction with the declared defaults\<close>

text \<open>
  \<^verbatim>\<open>Source(feed_url=u)\<close>: every field the call does not give takes its declared
  \<^verbatim>\<open>default\<close>, and a nullable field without one is \<^verbatim>\<open>None\<close>.
\<close>

definition Source_init :: "string \<Rightarrow> Source" where
  "Source_init u =
     \<lparr> Source.pk = None, name = None, site_url = None, feed_url = u, image_url = None,
       description = None, last_polled = None, due_poll = datetime_utc 1900 1 1,
       etag = None, last_modified = None, last_result = None, interval = 400,
       last_success = None, last_change = None, live = True, status_code = 0,
       last_302_url = None, last_302_start = None, max_index = 0, num_subs = 1,
       is_cloudflare = False, category = None \<rparr>"

text \<open>
  \<^verbatim>\<open>Post(source=s, body=b, created=c, index=i)\<close>: the fields without a default are
  given; \<^verbatim>\<open>title\<close> (blank allowed, not nullable) starts as the empty string.
\<close>

definition Post_init :: "nat \<Rightarrow> string \<Rightarrow> datetime \<Rightarrow> int \<Rightarrow> Post" where
  "Post_init s b c i =
     \<lparr> Post.pk = None, source = s, title = [], body = b, link = None, found = None,
       created = c, guid = None, author = None, index = i, image_url = None,
       read = False, starred = False \<rparr>"

subsection \<open>Saving and querying\<close>

text \<open>
  \<^verbatim>\<open>Model.save(update_fields=fs)\<close> on a Post. An empty list saves nothing. A name that
  is not a concrete column (or is the primary key) raises \<^verbatim>\<open>ValueError\<close>, and so does an
  instance without a primary key. Otherwise the save is one
  \<^verbatim>\<open>UPDATE ... SET f = self.f, ... WHERE id = self.id\<close>: only the named columns are
  written, and \<^verbatim>\<open>DatabaseError\<close> is raised when no row has that key.
\<close>

definition Post_concrete_fields :: "string list" where
  "Post_concrete_fields =
     [''source'', ''source_id'', ''title'', ''body'', ''link'', ''found'', ''created'',
      ''guid'', ''author'', ''index'', ''image_url'', ''read'', ''starred'']"

definition Post_set_column :: "Post \<Rightarrow> string \<Rightarrow> Post \<Rightarrow> Post" where
  "Post_set_column self f row =
     (if f = ''source'' \<or> f = ''source_id'' then row\<lparr>source := source self\<rparr>
      else if f = ''title'' then row\<lparr>title := title self\<rparr>
      else if f = ''body'' then row\<lparr>body := body self\<rparr>
      else if f = ''link'' then row\<lparr>link := link self\<rparr>
      else if f = ''found'' then row\<lparr>found := found self\<rparr>
      else if f = ''created'' then row\<lparr>created := created self\<rparr>
      else if f = ''guid'' then row\<lparr>guid := guid self\<rparr>
      else if f = ''author'' then row\<lparr>author := author self\<rparr>
      else if f = ''index'' then row\<lparr>index := index self\<rparr>
      else if f = ''image_url'' then row\<lparr>Post.image_url := Post.image_url self\<rparr>
      else if f = ''read'' then row\<lparr>read := read self\<rparr>
      else if f = ''starred'' then row\<lparr>starred := starred self\<rparr>
      else row)"

definition Post_save :: "string list \<Rightarrow> Post \<Rightarrow> db \<Rightarrow> error + db" where
  "Post_save update_fields self d =
     (if update_fields = [] then Inr d
      else if \<not> list_all (\<lambda>f. f \<in> set Post_concrete_fields) update_fields
        then Inl ValueError
      else case Post.pk self of
        None \<Rightarrow> Inl ValueError
      | Some k \<Rightarrow>
          if filter (\<lambda>row. Post.pk row = Some k) (posts d) = [] then Inl DatabaseError
          else Inr (d\<lparr>posts :=
                 map (\<lambda>row. if Post.pk row = Some k
                             then fold (Post_set_column self) update_fields row
                             else row)
                   (posts d)\<rparr>))"

text \<open>
  \<^verbatim>\<open>class Meta: ordering = ["index"]\<close>: a Post queryset without an explicit order is
  read \<^verbatim>\<open>ORDER BY index ASC\<close>. Rows with equal index come in an order the database
  chooses; the model keeps their storage order.
\<close>

definition Post_ordering :: "Post list \<Rightarrow> Post list" where
  "Post_ordering rows = sort_key index rows"

text \<open>\<^verbatim>\<open>Post.objects.all()\<close>, evaluated.\<close>

definition Post_objects_all :: "db \<Rightarrow> Post list" where
  "Post_objects_all d = Post_ordering (posts d)"

text \<open>
  \<^verbatim>\<open>self.posts\<close>, the reverse side of \<^verbatim>\<open>Post.source\<close>: the posts whose foreign key is
  this Source's primary key. An instance that was never saved has no such relation
  (current Django raises \<^verbatim>\<open>ValueError\<close>).
\<close>

definition Source_posts :: "Source \<Rightarrow> db \<Rightarrow> error + Post list" where
  "Source_posts self d =
     (case Source.pk self of
        None \<Rightarrow> Inl ValueError
      | Some k \<Rightarrow> Inr (Post_ordering (filter (\<lambda>p. source p = k) (posts d))))"

text \<open>
  The rows of \<^verbatim>\<open>source LEFT OUTER JOIN post ON post.source_id = source.id\<close>: a Source
  without posts gives one row whose post side is NULL.
\<close>

definition left_join_posts :: "Source list \<Rightarrow> Post list \<Rightarrow> (Source \<times> Post option) list" where
  "left_join_posts srcs ps =
     concat (map (\<lambda>s. case filter (\<lambda>p. Some (source p) = Source.pk s) ps of
                         [] \<Rightarrow> [(s, None)]
                       | p # rest \<Rightarrow> map (\<lambda>p. (s, Some p)) (p # rest))
                 srcs)"

subsection \<open>Category\<close>

text \<open>
  \<^verbatim>\<open>Source.objects.filter(category=self).aggregate(unread_count=Count('posts',
  filter=Q(posts__read=False)))['unread_count']\<close>: over the sources of this category
  joined with their posts, the number of joined rows that have a post (its key is not
  NULL) with \<^verbatim>\<open>read = False\<close>. A Category that was never saved cannot be used in the
  filter (current Django raises \<^verbatim>\<open>ValueError\<close>).
\<close>

definition Category_unread_posts_count :: "Category \<Rightarrow> db \<Rightarrow> error + nat" where
  "Category_unread_posts_count self d =
     (case Category.pk self of
        None \<Rightarrow> Inl ValueError
      | Some c \<Rightarrow>
          Inr (length (filter (\<lambda>(s, po). case po of None \<Rightarrow> False | Some p \<Rightarrow> read p = False)
                 (left_join_posts (filter (\<lambda>s. category s = Some c) (sources d)) (posts d)))))"

subsection \<open>Source\<close>

text \<open>\<^verbatim>\<open>self.posts.filter(read=False).count()\<close>.\<close>

definition Source_unread_posts_count :: "Source \<Rightarrow> db \<Rightarrow> error + nat" where
  "Source_unread_posts_count self d =
     (case Source_posts self d of
        Inl e \<Rightarrow> Inl e
      | Inr ps \<Rightarrow> Inr (length (filter (\<lambda>p. read p = False) ps)))"

definition best_link :: "Source \<Rightarrow> string" where
  "best_link self =
     (if site_url self = None \<or> site_url self = Some '''' then feed_url self
      else the (site_url self))"

definition display_name :: "Source \<Rightarrow> string" where
  "display_name self =
     (if Source.name self = None \<or> Source.name self = Some '''' then best_link self
      else the (Source.name self))"

text \<open>
  \<open>garden_style\<close> and \<open>health_box\<close> read the clock: \<open>now\<close> is the value of
  \<^verbatim>\<open>datetime.datetime.utcnow().replace(tzinfo=datetime.timezone.utc)\<close> at the call.
\<close>

definition garden_style :: "datetime \<Rightarrow> Source \<Rightarrow> string" where
  "garden_style now self =
     (if \<not> live self then ''background-color:#ccc;''
      else if last_change self = None \<or> last_success self = None
        then ''background-color:#D00;color:white''
      else
        let days = int_half (timedelta_days now (the (last_change self)));
            col = 255 - days;
            col = (if col < 0 then 0 else col);
            css = ''background-color:#ff'' @ fmt_02x col @ fmt_02x col
        in if col < 128 then css @ '';color:white'' else css)"

definition health_box :: "datetime \<Rightarrow> Source \<Rightarrow> string" where
  "health_box now self =
     (if \<not> live self then ''#ccc;''
      else if last_change self = None \<or> last_success self = None then ''#F00;''
      else
        let days = int_half (timedelta_days now (the (last_change self)));
            red = days;
            red = (if red > 255 then 255 else red);
            green = 255 - days;
            green = (if green < 0 then 0 else green)
        in ''#'' @ fmt_02x red @ fmt_02x green @ ''00'')"

subsection \<open>Post\<close>

text \<open>
  A method changes the instance in memory and then saves: the result is the instance
  afterwards, and either the error the save raised or the database afterwards.
\<close>

definition mark_read :: "Post \<Rightarrow> db \<Rightarrow> Post \<times> (error + db)" where
  "mark_read self d =
     (let self = self\<lparr>read := True\<rparr>
      in (self, Post_save [''read''] self d))"

definition unmark_read :: "Post \<Rightarrow> db \<Rightarrow> Post \<times> (error + db)" where
  "unmark_read self d =
     (let self = self\<lparr>read := False\<rparr>
      in (self, Post_save [''read''] self d))"

definition toggle_starred :: "Post \<Rightarrow> db \<Rightarrow> Post \<times> (error + db)" where
  "toggle_starred self d =
     (let self = self\<lparr>starred := \<not> starred self\<rparr>
      in (self, Post_save [''starred''] self d))"

text \<open>
  The value of the local \<^verbatim>\<open>ret\<close> when the body of \<^verbatim>\<open>title_url_encoded\<close> ends: the
  query string without its first two characters when it is longer than two, and the
  empty string when encoding raised.
\<close>

definition title_url_encoded_ret :: "Post \<Rightarrow> string" where
  "title_url_encoded_ret self =
     (case urlencode_X (title self) of
        Inr ret \<Rightarrow> (if length ret > 2 then drop 2 ret else ret)
      | Inl e \<Rightarrow> '''')"

text \<open>The body has no \<^verbatim>\<open>return\<close>: the property's value is \<^verbatim>\<open>None\<close>.\<close>

definition title_url_encoded :: "Post \<Rightarrow> string option" where
  "title_url_encoded self = (let ret = title_url_encoded_ret self in None)"

text \<open>\<^verbatim>\<open>"/post/%d/" % self.id\<close>; \<^verbatim>\<open>%d\<close> of \<^verbatim>\<open>None\<close> raises \<^verbatim>\<open>TypeError\<close>.\<close>

definition Post_recast_link :: "Post \<Rightarrow> error + string" where
  "Post_recast_link self =
     (case Post.pk self of
        None \<Rightarrow> Inl TypeError
      | Some k \<Rightarrow> Inr (''/post/'' @ fmt_d (int k) @ ''/''))"

definition Enclosure_recast_link :: "Enclosure \<Rightarrow> error + string" where
  "Enclosure_recast_link self =
     (case Enclosure.pk self of
        None \<Rightarrow> Inl TypeError
      | Some k \<Rightarrow> Inr (''/enclosure/'' @ fmt_d (int k) @ ''/''))"

subsection \<open>Sequences of operations\<close>

text \<open>
  What a caller can do with the models: call one of the three Post methods on an
  instance it holds, or read a property. Each operation comes with the time of its
  call.
\<close>

datatype op =
    MarkRead Post
  | UnmarkRead Post
  | ToggleStarred Post
  | GetCategoryUnread Category
  | GetSourceUnread Source
  | GetBestLink Source
  | GetDisplayName Source
  | GetGardenStyle Source
  | GetHealthBox Source
  | GetTitleUrlEncoded Post
  | GetPostRecastLink Post
  | GetEnclosureRecastLink Enclosure

datatype outcome = Returned_None | Returned_int nat | Returned_str string | Raised error

definition of_count :: "error + nat \<Rightarrow> outcome" where
  "of_count r = (case r of Inl e \<Rightarrow> Raised e | Inr n \<Rightarrow> Returned_int n)"

definition of_str :: "error + string \<Rightarrow> outcome" where
  "of_str r = (case r of Inl e \<Rightarrow> Raised e | Inr s \<Rightarrow> Returned_str s)"

text \<open>A method that raises leaves the database as it was.\<close>

definition of_save :: "db \<Rightarrow> Post \<times> (error + db) \<Rightarrow> outcome \<times> db" where
  "of_save d r = (case snd r of Inl e \<Rightarrow> (Raised e, d) | Inr d' \<Rightarrow> (Returned_None, d'))"

fun exec_op :: "db \<Rightarrow> datetime \<times> op \<Rightarrow> outcome \<times> db" where
  "exec_op d (now, MarkRead p) = of_save d (mark_read p d)"
| "exec_op d (now, UnmarkRead p) = of_save d (unmark_read p d)"
| "exec_op d (now, ToggleStarred p) = of_save d (toggle_starred p d)"
| "exec_op d (now, GetCategoryUnread c) = (of_count (Category_unread_posts_count c d), d)"
| "exec_op d (now, GetSourceUnread s) = (of_count (Source_unread_posts_count s d), d)"
| "exec_op d (now, GetBestLink s) = (Returned_str (best_link s), d)"
| "exec_op d (now, GetDisplayName s) = (Returned_str (display_name s), d)"
| "exec_op d (now, GetGardenStyle s) = (Returned_str (garden_style now s), d)"
| "exec_op d (now, GetHealthBox s) = (Returned_str (health_box now s), d)"
| "exec_op d (now, GetTitleUrlEncoded p) =
     ((case title_url_encoded p of None \<Rightarrow> Returned_None | Some s \<Rightarrow> Returned_str s), d)"
| "exec_op d (now, GetPostRecastLink p) = (of_str (Post_recast_link p), d)"
| "exec_op d (now, GetEnclosureRecastLink e) = (of_str (Enclosure_recast_link e), d)"

fun run :: "db \<Rightarrow> (datetime \<times> op) list \<Rightarrow> db" where
  "run d [] = d"
| "run d (x # xs) = run (snd (exec_op d x)) xs"

section \<open>Properties\<close>

subsection \<open>What a save of one column writes\<close>

lemma Post_save_read:
  "Post_save [''read''] p d =
     (case Post.pk p of
        None \<Rightarrow> Inl ValueError
      | Some k \<Rightarrow>
          if filter (\<lambda>row. Post.pk row = Some k) (posts d) = [] then Inl DatabaseError
          else Inr (d\<lparr>posts := map (\<lambda>row. if Post.pk row = Some k
                                          then row\<lparr>read := read p\<rparr> else row)
                                 (posts d)\<rparr>))"
  by (simp add: Post_save_def Post_concrete_fields_def Post_set_column_def split: option.splits)

lemma Post_save_starred:
  "Post_save [''starred''] p d =
     (case Post.pk p of
        None \<Rightarrow> Inl ValueError
      | Some k \<Rightarrow>
          if filter (\<lambda>row. Post.pk row = Some k) (posts d) = [] then Inl DatabaseError
          else Inr (d\<lparr>posts := map (\<lambda>row. if Post.pk row = Some k
                                          then row\<lparr>starred := starred p\<rparr> else row)
                                 (posts d)\<rparr>))"
  by (simp add: Post_save_def Post_concrete_fields_def Post_set_column_def split: option.splits)

lemma filter_pk_map:
  "(filter (\<lambda>row. Post.pk row = Some k)
      (map (\<lambda>row. if Post.pk row = Some k then row\<lparr>read := b\<rparr> else row) rows) = [])
   = (filter (\<lambda>row. Post.pk row = Some k) rows = [])"
  by (induction rows) auto

lemma Post_save_sources: "Post_save fs p d = Inr d' \<Longrightarrow> sources d' = sources d"
  by (auto simp: Post_save_def split: if_splits option.splits)

lemma exec_op_sources: "sources (snd (exec_op d x)) = sources d"
proof (cases x)
  case (Pair now c)
  show ?thesis
    by (cases c)
      (auto simp: Pair of_save_def mark_read_def unmark_read_def toggle_starred_def Let_def
        dest: Post_save_sources split: sum.splits)
qed

lemma run_sources: "sources (run d ops) = sources d"
  by (induction ops arbitrary: d) (simp_all add: exec_op_sources)

lemma run_append: "run d (xs @ ys) = run (run d xs) ys"
  by (induction xs arbitrary: d) simp_all

subsection \<open>The Source counter\<close>

text \<open>
  C1. No operation of the models (\<open>mark_read\<close>, \<open>unmark_read\<close>, \<open>toggle_starred\<close>, a
  property read) lowers a Source's \<open>max_index\<close>: between any point of a sequence of
  operations and any later point, every Source row is still there, in place, with a
  \<open>max_index\<close> at least as large.
\<close>

theorem max_index_non_decreasing:
  "list_all2 (\<lambda>s s'. Source.pk s' = Source.pk s \<and> max_index s \<le> max_index s')
     (sources (run d ops)) (sources (run d (ops @ later)))"
  by (simp add: run_append run_sources list_all2_same)

theorem max_index_non_decreasing_witness:
  "list_all2 (\<lambda>s s'. Source.pk s' = Source.pk s \<and> max_index s \<le> max_index s')
     (sources (run
        \<lparr>tags = [], categories = [],
         sources = [(Source_init ''http://a/feed'')\<lparr>Source.pk := Some 1, max_index := 3\<rparr>],
         posts = [(Post_init 1 ''b'' 0 3)\<lparr>Post.pk := Some 7\<rparr>],
         enclosures = [], source_tags = [], post_tags = []\<rparr>
        [(10, MarkRead ((Post_init 1 ''b'' 0 3)\<lparr>Post.pk := Some 7\<rparr>))]))
     (sources (run
        \<lparr>tags = [], categories = [],
         sources = [(Source_init ''http://a/feed'')\<lparr>Source.pk := Some 1, max_index := 3\<rparr>],
         posts = [(Post_init 1 ''b'' 0 3)\<lparr>Post.pk := Some 7\<rparr>],
         enclosures = [], source_tags = [], post_tags = []\<rparr>
        ([(10, MarkRead ((Post_init 1 ''b'' 0 3)\<lparr>Post.pk := Some 7\<rparr>))]
          @ [(20, ToggleStarred ((Post_init 1 ''b'' 0 3)\<lparr>Post.pk := Some 7\<rparr>)),
             (30, GetHealthBox (Source_init ''http://a/feed''))])))"
  by (rule max_index_non_decreasing)

subsection \<open>Read and unread\<close>

text \<open>
  C2. \<open>mark_read\<close> sets \<open>read\<close> to true and \<open>unmark_read\<close> sets it to false, on the
  instance and, for a saved Post, in its row; every other field of the instance and
  every other column and table stay as they were. \<open>unmark_read\<close> after \<open>mark_read\<close>
  gives \<open>read = False\<close> again, and the database that \<open>unmark_read\<close> alone gives.
\<close>

theorem mark_read_unmark_read:
  "fst (mark_read p d) = p\<lparr>read := True\<rparr>
   \<and> fst (unmark_read p d) = p\<lparr>read := False\<rparr>
   \<and> (\<forall>m \<in> {fst (mark_read p d), fst (unmark_read p d)}.
        starred m = starred p \<and> title m = title p \<and> body m = body p \<and> guid m = guid p
        \<and> index m = index p \<and> source m = source p \<and> found m = found p
        \<and> created m = created p \<and> Post.pk m = Post.pk p \<and> link m = link p
        \<and> author m = author p \<and> Post.image_url m = Post.image_url p)
   \<and> read (fst (unmark_read (fst (mark_read p d)) d')) = False
   \<and> (Post.pk p = Some k \<and> filter (\<lambda>row. Post.pk row = Some k) (posts d) \<noteq> [] \<longrightarrow>
        snd (mark_read p d) =
          Inr (d\<lparr>posts := map (\<lambda>row. if Post.pk row = Some k then row\<lparr>read := True\<rparr> else row)
                              (posts d)\<rparr>)
        \<and> snd (unmark_read p d) =
          Inr (d\<lparr>posts := map (\<lambda>row. if Post.pk row = Some k then row\<lparr>read := False\<rparr> else row)
                              (posts d)\<rparr>)
        \<and> (\<exists>d1. snd (mark_read p d) = Inr d1
              \<and> snd (unmark_read (fst (mark_read p d)) d1) = snd (unmark_read p d)))"
proof -
  have mem: "fst (mark_read p d) = p\<lparr>read := True\<rparr>" "fst (unmark_read p d) = p\<lparr>read := False\<rparr>"
    by (simp_all add: mark_read_def unmark_read_def Let_def)
  have rt: "read (fst (unmark_read (fst (mark_read p d)) d')) = False"
    by (simp add: mark_read_def unmark_read_def Let_def)
  have dbp: "snd (mark_read p d) =
          Inr (d\<lparr>posts := map (\<lambda>row. if Post.pk row = Some k then row\<lparr>read := True\<rparr> else row)
                              (posts d)\<rparr>)
        \<and> snd (unmark_read p d) =
          Inr (d\<lparr>posts := map (\<lambda>row. if Post.pk row = Some k then row\<lparr>read := False\<rparr> else row)
                              (posts d)\<rparr>)
        \<and> (\<exists>d1. snd (mark_read p d) = Inr d1
              \<and> snd (unmark_read (fst (mark_read p d)) d1) = snd (unmark_read p d))"
    if h: "Post.pk p = Some k" "filter (\<lambda>row. Post.pk row = Some k) (posts d) \<noteq> []"
  proof -
    let ?d1 = "d\<lparr>posts := map (\<lambda>row. if Post.pk row = Some k then row\<lparr>read := True\<rparr> else row)
                               (posts d)\<rparr>"
    have a: "snd (mark_read p d) = Inr ?d1"
      using h by (simp add: mark_read_def Let_def Post_save_read)
    have b: "snd (unmark_read p d) =
          Inr (d\<lparr>posts := map (\<lambda>row. if Post.pk row = Some k then row\<lparr>read := False\<rparr> else row)
                              (posts d)\<rparr>)"
      using h by (simp add: unmark_read_def Let_def Post_save_read)
    have keep: "filter (\<lambda>row. Post.pk row = Some k) (posts ?d1) \<noteq> []"
      using h(2) by (simp add: filter_pk_map)
    have c: "snd (unmark_read (fst (mark_read p d)) ?d1) = snd (unmark_read p d)"
      using h keep unfolding b
      by (simp add: mem unmark_read_def Let_def Post_save_read o_def if_distrib cong: if_cong)
    show ?thesis using a b c by simp
  qed
  have fields: "\<forall>m \<in> {fst (mark_read p d), fst (unmark_read p d)}.
        starred m = starred p \<and> title m = title p \<and> body m = body p \<and> guid m = guid p
        \<and> index m = index p \<and> source m = source p \<and> found m = found p
        \<and> created m = created p \<and> Post.pk m = Post.pk p \<and> link m = link p
        \<and> author m = author p \<and> Post.image_url m = Post.image_url p"
    by (simp add: mem)
  from mem rt fields dbp show ?thesis by blast
qed

theorem mark_read_unmark_read_witness:
  "snd (mark_read ((Post_init 1 ''b'' 0 3)\<lparr>Post.pk := Some 7, starred := True\<rparr>)
         \<lparr>tags = [], categories = [], sources = [],
          posts = [(Post_init 1 ''b'' 0 3)\<lparr>Post.pk := Some 7\<rparr>,
                   (Post_init 1 ''c'' 0 4)\<lparr>Post.pk := Some 8\<rparr>],
          enclosures = [], source_tags = [], post_tags = []\<rparr>)
   = Inr \<lparr>tags = [], categories = [], sources = [],
          posts = [(Post_init 1 ''b'' 0 3)\<lparr>Post.pk := Some 7, read := True\<rparr>,
                   (Post_init 1 ''c'' 0 4)\<lparr>Post.pk := Some 8\<rparr>],
          enclosures = [], source_tags = [], post_tags = []\<rparr>"
proof -
  let ?p = "(Post_init 1 ''b'' 0 3)\<lparr>Post.pk := Some 7, starred := True\<rparr>"
  let ?d = "\<lparr>tags = [], categories = [], sources = [],
          posts = [(Post_init 1 ''b'' 0 3)\<lparr>Post.pk := Some 7\<rparr>,
                   (Post_init 1 ''c'' 0 4)\<lparr>Post.pk := Some 8\<rparr>],
          enclosures = [], source_tags = [], post_tags = []\<rparr>"
  have h: "Post.pk ?p = Some 7 \<and> filter (\<lambda>row. Post.pk row = Some 7) (posts ?d) \<noteq> []"
    by (simp add: Post_init_def)
  from mark_read_unmark_read [of ?p ?d ?d 7] h
  have "snd (mark_read ?p ?d) =
          Inr (?d\<lparr>posts := map (\<lambda>row. if Post.pk row = Some 7 then row\<lparr>read := True\<rparr> else row)
                               (posts ?d)\<rparr>)"
    by blast
  then show ?thesis by (simp add: Post_init_def)
qed

subsection \<open>Starred\<close>

text \<open>
  C3. \<open>toggle_starred\<close> negates \<open>starred\<close> and changes nothing else, \<open>read\<close> in
  particular; it always changes \<open>starred\<close>, so neither value is final, and twice it
  gives the instance back. For a saved Post only the \<open>starred\<close> column of its row is
  written.
\<close>

theorem toggle_starred_involution:
  "fst (toggle_starred p d) = p\<lparr>starred := \<not> starred p\<rparr>
   \<and> read (fst (toggle_starred p d)) = read p
   \<and> starred (fst (toggle_starred p d)) \<noteq> starred p
   \<and> fst (toggle_starred (fst (toggle_starred p d)) d') = p
   \<and> (Post.pk p = Some k \<and> filter (\<lambda>row. Post.pk row = Some k) (posts d) \<noteq> [] \<longrightarrow>
        snd (toggle_starred p d) =
          Inr (d\<lparr>posts := map (\<lambda>row. if Post.pk row = Some k
                                      then row\<lparr>starred := \<not> starred p\<rparr> else row)
                              (posts d)\<rparr>))"
  by (simp add: toggle_starred_def Let_def Post_save_starred)

theorem toggle_starred_involution_witness:
  "snd (toggle_starred ((Post_init 1 ''b'' 0 3)\<lparr>Post.pk := Some 7, read := True\<rparr>)
         \<lparr>tags = [], categories = [], sources = [],
          posts = [(Post_init 1 ''b'' 0 3)\<lparr>Post.pk := Some 7, read := True\<rparr>,
                   (Post_init 1 ''c'' 0 4)\<lparr>Post.pk := Some 8\<rparr>],
          enclosures = [], source_tags = [], post_tags = []\<rparr>)
   = Inr \<lparr>tags = [], categories = [], sources = [],
          posts = [(Post_init 1 ''b'' 0 3)\<lparr>Post.pk := Some 7, read := True, starred := True\<rparr>,
                   (Post_init 1 ''c'' 0 4)\<lparr>Post.pk := Some 8\<rparr>],
          enclosures = [], source_tags = [], post_tags = []\<rparr>"
proof -
  let ?p = "(Post_init 1 ''b'' 0 3)\<lparr>Post.pk := Some 7, read := True\<rparr>"
  let ?d = "\<lparr>tags = [], categories = [], sources = [],
          posts = [(Post_init 1 ''b'' 0 3)\<lparr>Post.pk := Some 7, read := True\<rparr>,
                   (Post_init 1 ''c'' 0 4)\<lparr>Post.pk := Some 8\<rparr>],
          enclosures = [], source_tags = [], post_tags = []\<rparr>"
  have h: "Post.pk ?p = Some 7 \<and> filter (\<lambda>row. Post.pk row = Some 7) (posts ?d) \<noteq> []"
    by (simp add: Post_init_def)
  from toggle_starred_involution [of ?p ?d ?d 7] h
  have "snd (toggle_starred ?p ?d) =
          Inr (?d\<lparr>posts := map (\<lambda>row. if Post.pk row = Some 7
                                       then row\<lparr>starred := \<not> starred ?p\<rparr> else row)
                               (posts ?d)\<rparr>)"
    by blast
  then show ?thesis by (simp add: Post_init_def)
qed

subsection \<open>The default order of Posts\<close>

lemma sorted_nth_index:
  "sorted (map index rows) \<Longrightarrow> i < j \<Longrightarrow> j < length rows \<Longrightarrow>
     index (rows ! i) \<le> index (rows ! j)"
  using sorted_nth_mono [of "map index rows" i j] by simp

text \<open>
  C7. The default order is ascending by \<open>index\<close>: \<open>Post.objects.all()\<close> is the table in
  that order, and for any collection of rows the ordered result holds the same rows,
  its indexes are sorted, and a Post that comes before another has an index that is
  not greater.
\<close>

theorem Post_default_order_by_index:
  "Post_objects_all d = Post_ordering (posts d)
   \<and> sorted (map index (Post_ordering rows))
   \<and> mset (Post_ordering rows) = mset rows
   \<and> (\<forall>i j. i < j \<and> j < length (Post_ordering rows) \<longrightarrow>
         index (Post_ordering rows ! i) \<le> index (Post_ordering rows ! j))"
proof -
  have s: "sorted (map index (Post_ordering rows))"
    by (simp add: Post_ordering_def)
  have p: "\<forall>i j. i < j \<and> j < length (Post_ordering rows) \<longrightarrow>
         index (Post_ordering rows ! i) \<le> index (Post_ordering rows ! j)"
    using sorted_nth_index [OF s] by blast
  show ?thesis using s p by (simp add: Post_objects_all_def Post_ordering_def)
qed

theorem Post_default_order_by_index_witness:
  "index (Post_ordering [Post_init 1 ''a'' 0 3, Post_init 1 ''b'' 0 1, Post_init 2 ''c'' 0 2] ! 0)
     \<le> index (Post_ordering [Post_init 1 ''a'' 0 3, Post_init 1 ''b'' 0 1, Post_init 2 ''c'' 0 2] ! 1)
   \<and> map body (Post_ordering [Post_init 1 ''a'' 0 3, Post_init 1 ''b'' 0 1, Post_init 2 ''c'' 0 2])
       = [''b'', ''c'', ''a'']"
proof -
  let ?rows = "[Post_init 1 ''a'' 0 3, Post_init 1 ''b'' 0 1, Post_init 2 ''c'' 0 2]"
  have len: "(0::nat) < 1 \<and> 1 < length (Post_ordering ?rows)"
    by (simp add: Post_ordering_def)
  from Post_default_order_by_index [where rows = ?rows] len
  have "index (Post_ordering ?rows ! 0) \<le> index (Post_ordering ?rows ! 1)"
    by blast
  moreover have "map body (Post_ordering ?rows) = [''b'', ''c'', ''a'']"
    by (simp add: Post_ordering_def Post_init_def)
  ultimately show ?thesis by simp
qed

subsection \<open>Unread counts\<close>

lemma count_join_one:
  "length (filter (\<lambda>(s, po). case po of None \<Rightarrow> False | Some p \<Rightarrow> read p = False)
      (case filter (\<lambda>p. Some (source p) = Source.pk s) (ps :: Post list) of
         [] \<Rightarrow> [(s, None)]
       | p # rest \<Rightarrow> map (\<lambda>p. (s, Some p)) (p # rest)))
   = length (filter (\<lambda>p. Some (source p) = Source.pk s \<and> read p = False) ps)"
proof -
  have m: "length (filter (\<lambda>(s, po). case po of None \<Rightarrow> False | Some p \<Rightarrow> read p = False)
             (map (\<lambda>p. (s, Some p)) qs)) = length (filter (\<lambda>p. read p = False) qs)"
    for qs :: "Post list"
    by (induction qs) simp_all
  have f: "filter (\<lambda>p. Some (source p) = Source.pk s \<and> read p = False) ps
             = filter (\<lambda>p. read p = False) (filter (\<lambda>p. Some (source p) = Source.pk s) ps)"
    by (simp add: conj_commute)
  show ?thesis
  proof (cases "filter (\<lambda>p. Some (source p) = Source.pk s) ps")
    case Nil
    then show ?thesis unfolding f by simp
  next
    case (Cons q qs)
    show ?thesis unfolding f Cons list.case m ..
  qed
qed

lemma count_join:
  "length (filter (\<lambda>(s, po). case po of None \<Rightarrow> False | Some p \<Rightarrow> read p = False)
      (left_join_posts srcs (ps :: Post list)))
   = (\<Sum>s\<leftarrow>srcs. length (filter (\<lambda>p. Some (source p) = Source.pk s \<and> read p = False) ps))"
proof (induction srcs)
  case Nil
  then show ?case by (simp add: left_join_posts_def)
next
  case (Cons s srcs)
  have "left_join_posts (s # srcs) ps =
      (case filter (\<lambda>p. Some (source p) = Source.pk s) ps of
         [] \<Rightarrow> [(s, None)]
       | p # rest \<Rightarrow> map (\<lambda>p. (s, Some p)) (p # rest)) @ left_join_posts srcs ps"
    by (simp add: left_join_posts_def)
  then show ?case using Cons.IH count_join_one [of s ps] by simp
qed

lemma Source_count_saved:
  "Source.pk s = Some k \<Longrightarrow>
     Source_unread_posts_count s d =
       Inr (length (filter (\<lambda>p. source p = k \<and> read p = False) (posts d)))"
proof -
  assume h: "Source.pk s = Some k"
  have len: "length (filter P (sort_key index xs)) = length (filter P xs)"
    for P and xs :: "Post list"
  proof -
    have "mset (filter P (sort_key index xs)) = mset (filter P xs)" by simp
    then show ?thesis by (rule mset_eq_length)
  qed
  show ?thesis using h
    by (simp add: Source_unread_posts_count_def Source_posts_def Post_ordering_def len conj_commute)
qed

text \<open>
  C8. For a saved Source, \<open>unread_posts_count\<close> is the number of Post rows of that
  Source with \<open>read = False\<close>. For a saved Category it is the sum, over the Source rows
  of the Category, of the number of unread Post rows of each; when every Source row
  has its key, that is the sum of what \<open>unread_posts_count\<close> returns for each of them.
\<close>

theorem unread_posts_count_aggregates:
  "(Source.pk s = Some k \<longrightarrow>
      Source_unread_posts_count s d =
        Inr (length (filter (\<lambda>p. source p = k \<and> read p = False) (posts d))))
   \<and> (Category.pk c = Some j \<longrightarrow>
      Category_unread_posts_count c d =
        Inr (\<Sum>s\<leftarrow>filter (\<lambda>s. category s = Some j) (sources d).
               length (filter (\<lambda>p. Some (source p) = Source.pk s \<and> read p = False) (posts d))))
   \<and> (Category.pk c = Some j \<and> list_all (\<lambda>s. Source.pk s \<noteq> None) (sources d) \<longrightarrow>
      (\<exists>ns. map (\<lambda>s. Source_unread_posts_count s d)
                (filter (\<lambda>s. category s = Some j) (sources d)) = map Inr ns
            \<and> Category_unread_posts_count c d = Inr (sum_list ns)))"
proof -
  have cat: "Category_unread_posts_count c d =
        Inr (\<Sum>s\<leftarrow>filter (\<lambda>s. category s = Some j) (sources d).
               length (filter (\<lambda>p. Some (source p) = Source.pk s \<and> read p = False) (posts d)))"
    if "Category.pk c = Some j"
    unfolding Category_unread_posts_count_def using that by (simp only: option.case count_join)
  have third: "\<exists>ns. map (\<lambda>s. Source_unread_posts_count s d)
                (filter (\<lambda>s. category s = Some j) (sources d)) = map Inr ns
            \<and> Category_unread_posts_count c d = Inr (sum_list ns)"
    if h: "Category.pk c = Some j" "list_all (\<lambda>s. Source.pk s \<noteq> None) (sources d)"
  proof -
    let ?srcs = "filter (\<lambda>s. category s = Some j) (sources d)"
    let ?n = "\<lambda>s. length (filter (\<lambda>p. Some (source p) = Source.pk s \<and> read p = False) (posts d))"
    have "\<forall>s \<in> set ?srcs. Source_unread_posts_count s d = Inr (?n s)"
    proof
      fix s assume "s \<in> set ?srcs"
      then have "Source.pk s \<noteq> None" using h(2) by (auto simp: list_all_iff)
      then obtain k where k: "Source.pk s = Some k" by auto
      show "Source_unread_posts_count s d = Inr (?n s)"
        using Source_count_saved [OF k, of d] by (simp add: k)
    qed
    then have "map (\<lambda>s. Source_unread_posts_count s d) ?srcs = map Inr (map ?n ?srcs)"
      by simp
    moreover have "Category_unread_posts_count c d = Inr (sum_list (map ?n ?srcs))"
      using cat [OF h(1)] .
    ultimately show ?thesis by blast
  qed
  show ?thesis
    by (intro conjI impI; (elim conjE)?; (rule Source_count_saved cat third; assumption))
qed

theorem unread_posts_count_aggregates_witness:
  "Source_unread_posts_count ((Source_init ''http://a/feed'')\<lparr>Source.pk := Some 10\<rparr>)
      \<lparr>tags = [], categories = [\<lparr>Category.pk = Some 1, name = ''news''\<rparr>],
       sources = [(Source_init ''http://a/feed'')\<lparr>Source.pk := Some 10, category := Some 1\<rparr>,
                  (Source_init ''http://b/feed'')\<lparr>Source.pk := Some 11, category := Some 1\<rparr>,
                  (Source_init ''http://c/feed'')\<lparr>Source.pk := Some 12\<rparr>],
       posts = [(Post_init 10 ''p'' 0 1)\<lparr>Post.pk := Some 1\<rparr>,
                (Post_init 10 ''q'' 0 2)\<lparr>Post.pk := Some 2, read := True\<rparr>,
                (Post_init 11 ''r'' 0 1)\<lparr>Post.pk := Some 3\<rparr>,
                (Post_init 12 ''s'' 0 1)\<lparr>Post.pk := Some 4\<rparr>],
       enclosures = [], source_tags = [], post_tags = []\<rparr> = Inr 1
   \<and> Category_unread_posts_count \<lparr>Category.pk = Some 1, name = ''news''\<rparr>
      \<lparr>tags = [], categories = [\<lparr>Category.pk = Some 1, name = ''news''\<rparr>],
       sources = [(Source_init ''http://a/feed'')\<lparr>Source.pk := Some 10, category := Some 1\<rparr>,
                  (Source_init ''http://b/feed'')\<lparr>Source.pk := Some 11, category := Some 1\<rparr>,
                  (Source_init ''http://c/feed'')\<lparr>Source.pk := Some 12\<rparr>],
       posts = [(Post_init 10 ''p'' 0 1)\<lparr>Post.pk := Some 1\<rparr>,
                (Post_init 10 ''q'' 0 2)\<lparr>Post.pk := Some 2, read := True\<rparr>,
                (Post_init 11 ''r'' 0 1)\<lparr>Post.pk := Some 3\<rparr>,
                (Post_init 12 ''s'' 0 1)\<lparr>Post.pk := Some 4\<rparr>],
       enclosures = [], source_tags = [], post_tags = []\<rparr> = Inr 2"
  using unread_posts_count_aggregates
    [of "(Source_init ''http://a/feed'')\<lparr>Source.pk := Some 10\<rparr>" 10
        "\<lparr>tags = [], categories = [\<lparr>Category.pk = Some 1, name = ''news''\<rparr>],
       sources = [(Source_init ''http://a/feed'')\<lparr>Source.pk := Some 10, category := Some 1\<rparr>,
                  (Source_init ''http://b/feed'')\<lparr>Source.pk := Some 11, category := Some 1\<rparr>,
                  (Source_init ''http://c/feed'')\<lparr>Source.pk := Some 12\<rparr>],
       posts = [(Post_init 10 ''p'' 0 1)\<lparr>Post.pk := Some 1\<rparr>,
                (Post_init 10 ''q'' 0 2)\<lparr>Post.pk := Some 2, read := True\<rparr>,
                (Post_init 11 ''r'' 0 1)\<lparr>Post.pk := Some 3\<rparr>,
                (Post_init 12 ''s'' 0 1)\<lparr>Post.pk := Some 4\<rparr>],
       enclosures = [], source_tags = [], post_tags = []\<rparr>"
        "\<lparr>Category.pk = Some 1, name = ''news''\<rparr>" 1]
  by (simp add: Source_init_def Post_init_def)

subsection \<open>Display name\<close>

text \<open>
  C10. \<open>display_name\<close> is \<open>name\<close> when that is neither \<open>None\<close> nor empty, else \<open>site_url\<close>
  when that is neither \<open>None\<close> nor empty, else \<open>feed_url\<close>; so a Source with a non-empty
  \<open>feed_url\<close> has a non-empty \<open>display_name\<close>.
\<close>

theorem display_name_fallback:
  "display_name s =
     (if Source.name s \<noteq> None \<and> Source.name s \<noteq> Some '''' then the (Source.name s)
      else if site_url s \<noteq> None \<and> site_url s \<noteq> Some '''' then the (site_url s)
      else feed_url s)
   \<and> (feed_url s \<noteq> '''' \<longrightarrow> display_name s \<noteq> '''')"
  by (auto simp: display_name_def best_link_def)

theorem display_name_fallback_witness:
  "display_name ((Source_init ''http://a/feed'')\<lparr>name := Some '''', site_url := None\<rparr>)
     = ''http://a/feed''
   \<and> display_name ((Source_init ''http://a/feed'')\<lparr>name := Some '''', site_url := None\<rparr>) \<noteq> ''''"
  using display_name_fallback
    [of "(Source_init ''http://a/feed'')\<lparr>name := Some '''', site_url := None\<rparr>"]
  by (simp add: Source_init_def)

subsection \<open>The URL-encoded title\<close>

lemma title_url_encoded_ret_value:
  "title_url_encoded_ret p =
     (case quote_plus (title p) of
        Inl e \<Rightarrow> ''''
      | Inr q \<Rightarrow> if q = [] then ''X='' else q)"
  by (simp add: title_url_encoded_ret_def urlencode_X_def split: sum.splits)

text \<open>
  C9. \<open>title_url_encoded\<close> is \<open>None\<close> for every Post: the encoded title that the body
  computes is never returned.
\<close>

theorem title_url_encoded_is_None: "title_url_encoded p = None"
  by (simp add: title_url_encoded_def)

subsection \<open>The health colour\<close>

lemma hex_digits_byte:
  "m < 256 \<Longrightarrow> hex_digits m =
     (if m < 16 then [''0123456789abcdef'' ! m]
      else [''0123456789abcdef'' ! (m div 16), ''0123456789abcdef'' ! (m mod 16)])"
proof -
  assume m: "m < 256"
  then have d: "m div 16 < 16" by simp
  show ?thesis
    using d by (subst hex_digits.simps, subst hex_digits.simps [of "m div 16"]) (simp del: hex_digits.simps)
qed

lemma fmt_02x_byte:
  assumes "0 \<le> n" "n < 256"
  shows "fmt_02x n = [''0123456789abcdef'' ! nat (n div 16), ''0123456789abcdef'' ! nat (n mod 16)]"
proof -
  define T where "T = ''0123456789abcdef''"
  have m: "nat n < 256" using assms by simp
  have ab: "\<bar>n\<bar> = n" using assms by simp
  have dv: "nat n div 16 = nat (n div 16)" "nat n mod 16 = nat (n mod 16)"
    using assms by (simp_all add: nat_div_distrib nat_mod_distrib)
  have T0: "T ! 0 = CHR ''0''" by (simp add: T_def)
  have hd: "hex_digits (nat n) =
      (if nat n < 16 then [T ! nat n] else [T ! nat (n div 16), T ! nat (n mod 16)])"
    using hex_digits_byte [OF m] by (simp only: T_def dv)
  have "fmt_02x n = [T ! nat (n div 16), T ! nat (n mod 16)]"
  proof (cases "n < 16")
    case True
    then have z: "n div 16 = 0" "n mod 16 = n" using assms by simp_all
    show ?thesis using True assms
      by (simp add: fmt_02x_def Let_def ab hd z T0 del: hex_digits.simps)
  next
    case False
    then show ?thesis using assms
      by (simp add: fmt_02x_def Let_def ab hd del: hex_digits.simps)
  qed
  then show ?thesis by (simp only: T_def)
qed

lemma timedelta_days_nonneg: "b \<le> a \<Longrightarrow> 0 \<le> timedelta_days a b"
  by (simp add: timedelta_days_def us_per_day_def pos_imp_zdiv_nonneg_iff)

lemma timedelta_days_mono: "a \<le> a' \<Longrightarrow> timedelta_days a b \<le> timedelta_days a' b"
  by (simp add: timedelta_days_def us_per_day_def zdiv_mono1)

text \<open>
  C5, for a \<open>last_change\<close> that is not in the future. \<open>health_box\<close> is \<open>#ccc;\<close> when \<open>live\<close> is false, and \<open>#F00;\<close> when the
  Source is live and \<open>last_change\<close> or \<open>last_success\<close> is unset. Otherwise, when
  \<open>last_change\<close> is not later than the time of the call, with \<open>d\<close> half the whole days
  elapsed since \<open>last_change\<close> (rounded down), it is \<open>#RRGG00\<close> with \<open>RR = min d 255\<close> and
  \<open>GG = max (255 - d) 0\<close>, each as two lowercase hexadecimal digits; as time passes the
  red part does not fall and the green part does not rise.
\<close>

theorem health_box_color:
  "(\<not> live s \<longrightarrow> health_box now s = ''#ccc;'')
   \<and> (live s \<and> (last_change s = None \<or> last_success s = None) \<longrightarrow> health_box now s = ''#F00;'')
   \<and> (live s \<and> last_change s = Some lc \<and> last_success s = Some ls \<and> lc \<le> now \<longrightarrow>
        (let d = timedelta_days now lc div 2; rr = min d 255; gg = max (255 - d) 0
         in health_box now s =
              ''#'' @ [''0123456789abcdef'' ! nat (rr div 16), ''0123456789abcdef'' ! nat (rr mod 16)]
                  @ [''0123456789abcdef'' ! nat (gg div 16), ''0123456789abcdef'' ! nat (gg mod 16)]
                  @ ''00''
            \<and> 0 \<le> rr \<and> rr \<le> 255 \<and> 0 \<le> gg \<and> gg \<le> 255))
   \<and> (lc \<le> now \<and> now \<le> now' \<longrightarrow>
        min (timedelta_days now lc div 2) 255 \<le> min (timedelta_days now' lc div 2) 255
        \<and> max (255 - timedelta_days now' lc div 2) 0 \<le> max (255 - timedelta_days now lc div 2) 0)"
proof -
  have c: "(let d = timedelta_days now lc div 2; rr = min d 255; gg = max (255 - d) 0
         in health_box now s =
              ''#'' @ [''0123456789abcdef'' ! nat (rr div 16), ''0123456789abcdef'' ! nat (rr mod 16)]
                  @ [''0123456789abcdef'' ! nat (gg div 16), ''0123456789abcdef'' ! nat (gg mod 16)]
                  @ ''00''
            \<and> 0 \<le> rr \<and> rr \<le> 255 \<and> 0 \<le> gg \<and> gg \<le> 255)"
    if h: "live s" "last_change s = Some lc" "last_success s = Some ls" "lc \<le> now"
  proof -
    define d where "d = timedelta_days now lc div 2"
    have d0: "0 \<le> d" using timedelta_days_nonneg [OF h(4)] by (simp add: d_def)
    have ih: "int_half (timedelta_days now lc) = d"
      using timedelta_days_nonneg [OF h(4)] by (simp add: int_half_def d_def)
    have red: "(if d > 255 then 255 else d) = min d 255" by simp
    have green: "(if 255 - d < 0 then 0 else 255 - d) = max (255 - d) 0" by simp
    have r: "0 \<le> min d 255" "min d 255 < 256" using d0 by simp_all
    have g: "0 \<le> max (255 - d) 0" "max (255 - d) 0 < 256" using d0 by simp_all
    have "health_box now s = ''#'' @ fmt_02x (min d 255) @ fmt_02x (max (255 - d) 0) @ ''00''"
      using h by (simp only: health_box_def Let_def ih red green option.sel) simp
    then show ?thesis
      unfolding fmt_02x_byte [OF r] fmt_02x_byte [OF g] Let_def d_def [symmetric]
      using r g by simp
  qed
  have mono: "min (timedelta_days now lc div 2) 255 \<le> min (timedelta_days now' lc div 2) 255
        \<and> max (255 - timedelta_days now' lc div 2) 0 \<le> max (255 - timedelta_days now lc div 2) 0"
    if "now \<le> now'"
  proof -
    have "timedelta_days now lc div 2 \<le> timedelta_days now' lc div 2"
      using timedelta_days_mono [OF that, of lc] by (simp add: zdiv_mono1)
    then show ?thesis by auto
  qed
  have a: "\<not> live s \<longrightarrow> health_box now s = ''#ccc;''"
    by (simp add: health_box_def)
  have b: "live s \<and> (last_change s = None \<or> last_success s = None) \<longrightarrow> health_box now s = ''#F00;''"
    by (auto simp: health_box_def)
  from a b c mono show ?thesis by blast
qed

theorem health_box_color_witness:
  "health_box (datetime_utc 2024 3 1)
     ((Source_init ''http://a/feed'')\<lparr>last_success := Some (datetime_utc 2024 2 1),
                                        last_change := Some (datetime_utc 2024 1 1)\<rparr>)
   = ''#1ee100''"
  using health_box_color
    [of "(Source_init ''http://a/feed'')\<lparr>last_success := Some (datetime_utc 2024 2 1),
                                           last_change := Some (datetime_utc 2024 1 1)\<rparr>"
        "datetime_utc 2024 3 1" "datetime_utc 2024 1 1" "datetime_utc 2024 2 1"
        "datetime_utc 2024 3 1"]
  by (simp add: Source_init_def datetime_utc_def ymd2ord_def days_before_year_def
      days_before_month_def is_leap_def us_per_day_def timedelta_days_def Let_def)

text \<open>
  A \<open>last_change\<close> nine days after the time of the call: the day count is negative, the
  red part is not clamped from below and the green part not from above, and the result
  is not a \<open>#\<close> followed by six hexadecimal digits.
\<close>

theorem health_box_future_counterexample:
  "health_box (datetime_utc 2024 1 1)
     ((Source_init ''http://a/feed'')\<lparr>last_success := Some (datetime_utc 2024 1 10),
                                        last_change := Some (datetime_utc 2024 1 10)\<rparr>)
   = ''#-410300''"
  by (simp add: health_box_def Source_init_def datetime_utc_def ymd2ord_def days_before_year_def
      days_before_month_def is_leap_def us_per_day_def timedelta_days_def int_half_def fmt_02x_def Let_def)

subsection \<open>What the derived properties depend on\<close>

lemma display_name_cong:
  "Source.name s = Source.name s' \<Longrightarrow> site_url s = site_url s' \<Longrightarrow> feed_url s = feed_url s' \<Longrightarrow>
     display_name s = display_name s'"
  by (simp add: display_name_def best_link_def)

lemma health_box_cong:
  "live s = live s' \<Longrightarrow> last_change s = last_change s' \<Longrightarrow> last_success s = last_success s' \<Longrightarrow>
     health_box now s = health_box now s'"
  by (simp add: health_box_def)

lemma garden_style_cong:
  "live s = live s' \<Longrightarrow> last_change s = last_change s' \<Longrightarrow> last_success s = last_success s' \<Longrightarrow>
     garden_style now s = garden_style now s'"
  by (simp add: garden_style_def)

lemma clock_free:
  "\<not> live s \<or> last_change s = None \<or> last_success s = None \<Longrightarrow>
     health_box now s = health_box now' s \<and> garden_style now s = garden_style now' s"
  unfolding health_box_def garden_style_def by (elim disjE) simp_all

lemma clock_days:
  "timedelta_days now (the (last_change s)) = timedelta_days now' (the (last_change s)) \<Longrightarrow>
     health_box now s = health_box now' s \<and> garden_style now s = garden_style now' s"
  by (simp add: health_box_def garden_style_def)

text \<open>
  C4, with the clock as an input. \<open>display_name\<close> is a function of the stored fields \<open>name\<close>,
  \<open>site_url\<close> and \<open>feed_url\<close> alone. \<open>health_box\<close> and \<open>garden_style\<close> are functions of
  \<open>live\<close>, \<open>last_change\<close>, \<open>last_success\<close> and the time of the call: two Sources equal on
  these fields give equal results at the same time. The time does not matter when the
  Source is not live or one of the two timestamps is unset, and otherwise matters only
  through the whole days elapsed since \<open>last_change\<close>.
\<close>

theorem derived_properties_inputs:
  "(Source.name s = Source.name s' \<and> site_url s = site_url s' \<and> feed_url s = feed_url s' \<longrightarrow>
      display_name s = display_name s')
   \<and> (live s = live s' \<and> last_change s = last_change s' \<and> last_success s = last_success s' \<longrightarrow>
      health_box now s = health_box now s' \<and> garden_style now s = garden_style now s')
   \<and> (\<not> live s \<or> last_change s = None \<or> last_success s = None \<longrightarrow>
      health_box now s = health_box now' s \<and> garden_style now s = garden_style now' s)
   \<and> (timedelta_days now (the (last_change s)) = timedelta_days now' (the (last_change s)) \<longrightarrow>
      health_box now s = health_box now' s \<and> garden_style now s = garden_style now' s)"
  using display_name_cong [of s s'] health_box_cong [of s s' now] garden_style_cong [of s s' now]
    clock_free [of s now now'] clock_days [of now s now']
  by blast

theorem derived_properties_inputs_witness:
  "display_name ((Source_init ''http://a/feed'')\<lparr>name := Some ''A'', live := False\<rparr>)
     = display_name ((Source_init ''http://a/feed'')\<lparr>name := Some ''A'', max_index := 9\<rparr>)
   \<and> health_box 5 ((Source_init ''http://a/feed'')\<lparr>name := Some ''A''\<rparr>)
     = health_box 5 ((Source_init ''http://a/feed'')\<lparr>max_index := 9\<rparr>)
   \<and> health_box 5 (Source_init ''http://a/feed'') = health_box 77 (Source_init ''http://a/feed'')"
  using derived_properties_inputs
     [of "(Source_init ''http://a/feed'')\<lparr>name := Some ''A'', live := False\<rparr>"
         "(Source_init ''http://a/feed'')\<lparr>name := Some ''A'', max_index := 9\<rparr>" 5 77]
    derived_properties_inputs
     [of "(Source_init ''http://a/feed'')\<lparr>name := Some ''A''\<rparr>"
         "(Source_init ''http://a/feed'')\<lparr>max_index := 9\<rparr>" 5 77]
    derived_properties_inputs
     [of "Source_init ''http://a/feed''" "Source_init ''http://a/feed''" 5 77]
  by (simp add: Source_init_def)

text \<open>
  The same Source read on 2024-01-01 and on 2025-01-01: \<open>health_box\<close> reads the clock and
  gives two different colours.
\<close>

theorem health_box_clock_counterexample:
  "health_box (datetime_utc 2024 1 1)
     ((Source_init ''http://a/feed'')\<lparr>last_success := Some (datetime_utc 2024 1 1),
                                        last_change := Some (datetime_utc 2024 1 1)\<rparr>)
     = ''#00ff00''
   \<and> health_box (datetime_utc 2025 1 1)
     ((Source_init ''http://a/feed'')\<lparr>last_success := Some (datetime_utc 2024 1 1),
                                        last_change := Some (datetime_utc 2024 1 1)\<rparr>)
     = ''#b74800''"
  by (simp add: health_box_def Source_init_def datetime_utc_def ymd2ord_def days_before_year_def
      days_before_month_def is_leap_def us_per_day_def timedelta_days_def int_half_def fmt_02x_def Let_def)


subsection \<open>Defaults\<close>

lemma days_before_year_mono: "1900 < y \<Longrightarrow> days_before_year 1900 + 365 \<le> days_before_year y"
  by (simp add: days_before_year_def Let_def)

lemma days_before_month_nonneg: "1 \<le> m \<Longrightarrow> m \<le> 12 \<Longrightarrow> 0 \<le> days_before_month y m"
proof -
  assume "1 \<le> m" "m \<le> 12"
  then have "m = 1 \<or> m = 2 \<or> m = 3 \<or> m = 4 \<or> m = 5 \<or> m = 6 \<or> m = 7 \<or> m = 8
      \<or> m = 9 \<or> m = 10 \<or> m = 11 \<or> m = 12" by arith
  then show ?thesis by (elim disjE) (simp_all add: days_before_month_def)
qed

text \<open>
  C6. A Source made from its \<open>feed_url\<close> alone has \<open>due_poll\<close> 1900-01-01 00:00 UTC,
  which is before every day of every later year, \<open>interval\<close> 400, \<open>live\<close> true,
  \<open>max_index\<close> 0, \<open>status_code\<close> 0 and \<open>is_cloudflare\<close> false; a Post made without flags
  has \<open>read\<close> and \<open>starred\<close> false.
\<close>

theorem Source_Post_defaults:
  "due_poll (Source_init u) = datetime_utc 1900 1 1
   \<and> interval (Source_init u) = 400
   \<and> live (Source_init u) = True
   \<and> max_index (Source_init u) = 0
   \<and> status_code (Source_init u) = 0
   \<and> is_cloudflare (Source_init u) = False
   \<and> feed_url (Source_init u) = u
   \<and> read (Post_init s b c i) = False
   \<and> starred (Post_init s b c i) = False
   \<and> (1900 < y \<and> 1 \<le> m \<and> m \<le> 12 \<and> 1 \<le> dd \<longrightarrow>
        due_poll (Source_init u) < datetime_utc y m dd)"
proof -
  have early: "datetime_utc 1900 1 1 < datetime_utc y m dd"
    if h: "1900 < y" "1 \<le> m" "m \<le> 12" "1 \<le> dd"
  proof -
    have "ymd2ord 1900 1 1 = days_before_year 1900 + 1"
      by (simp add: ymd2ord_def days_before_month_def)
    moreover have "days_before_year 1900 + 365 + 0 + 1 \<le> ymd2ord y m dd"
      unfolding ymd2ord_def
      using days_before_year_mono [OF h(1)] days_before_month_nonneg [OF h(2,3), of y] h(4)
      by linarith
    ultimately have "ymd2ord 1900 1 1 < ymd2ord y m dd" by linarith
    then show ?thesis by (simp add: datetime_utc_def us_per_day_def)
  qed
  show ?thesis using early by (simp add: Source_init_def Post_init_def)
qed

theorem Source_Post_defaults_witness:
  "due_poll (Source_init ''http://a/feed'') = datetime_utc 1900 1 1
   \<and> due_poll (Source_init ''http://a/feed'') < datetime_utc 2024 6 15
   \<and> interval (Source_init ''http://a/feed'') = 400
   \<and> read (Post_init 1 ''b'' (datetime_utc 2024 6 15) 1) = False"
  using Source_Post_defaults [of "''http://a/feed''" 1 "''b''" "datetime_utc 2024 6 15" 1 2024 6 15]
  by simp

end
